theory Spec2Isabelle
  imports Complex_Main
begin

section \<open>The caching proxy of proxy.py\<close>

text \<open>
  The proxy reads one command line from a client, serves \<open>GET\<close> from a time-bounded
  cache when it can, and relays the command line to the backend server otherwise.
  Python strings are modelled as \<open>string\<close>; \<open>encode()\<close> is the identity on them.
  Mutation of the cache and of the sockets is explicit state passing; every exception of
  the source is a value \<open>Inl e\<close>, returned together with the state reached when it was raised.
\<close>

subsection \<open>Constants of the module\<close>

abbreviation NL :: char where
  "NL \<equiv> CHR 0x0A"

definition SERVER_ADDRESS :: string where
  "SERVER_ADDRESS = ''localhost''"

definition SERVER_PORT :: nat where
  "SERVER_PORT = 7777"

definition LISTENING_PORT :: nat where
  "LISTENING_PORT = 8888"

definition MAX_CACHE_AGE_SEC :: real where
  "MAX_CACHE_AGE_SEC = 60"

subsection \<open>Errors\<close>

text \<open>
  \<open>SocketError\<close> stands for whatever \<open>connect\<close>, \<open>sendall\<close> or \<open>library.ReadCommand\<close>
  raise on the backend socket; \<open>NameError x\<close> is Python's error for reading the unbound name \<open>x\<close>.
\<close>

datatype error = SocketError | NameError string

subsection \<open>The cache: library.KeyValueStore\<close>

text \<open>
  Modelled from the spec: \<open>library.KeyValueStore\<close> (library.py is not among the sources).
  A CacheEntry is a value with the time it was written; the store maps each key to at most one
  entry. \<open>StoreValue\<close> overwrites the entry of the key with the value and the current time;
  \<open>GetValue\<close> returns the value if an entry exists and \<open>now - writtenAt \<le> maxAge\<close>, and
  signals a miss (Python's \<open>None\<close>) otherwise, without changing the store. The clock reading
  \<open>now\<close> is an argument.
\<close>

record CacheEntry =
  entry_value :: string
  writtenAt :: real

type_synonym KeyValueStore = "string \<rightharpoonup> CacheEntry"

definition KeyValueStore :: KeyValueStore where
  "KeyValueStore = Map.empty"

definition StoreValue :: "string \<Rightarrow> string \<Rightarrow> real \<Rightarrow> KeyValueStore \<Rightarrow> KeyValueStore" where
  "StoreValue key v now store = store(key \<mapsto> \<lparr>entry_value = v, writtenAt = now\<rparr>)"

definition GetValue :: "string \<Rightarrow> real \<Rightarrow> real \<Rightarrow> KeyValueStore \<Rightarrow> string option" where
  "GetValue key maxAge now store =
     (case store key of
        None \<Rightarrow> None
      | Some e \<Rightarrow> if now - writtenAt e \<le> maxAge then Some (entry_value e) else None)"

subsection \<open>Strings\<close>

text \<open>Python's \<open>s.strip(chars)\<close>: drop every leading and trailing character that is in \<open>chars\<close>.\<close>

definition strip :: "string \<Rightarrow> string \<Rightarrow> string" where
  "strip chars s =
     rev (dropWhile (\<lambda>c. c \<in> set chars) (rev (dropWhile (\<lambda>c. c \<in> set chars) s)))"

text \<open>
  Modelled from the spec: \<open>library.ParseCommand\<close> (library.py is not among the sources).
  A request line is \<open>VERB KEY [PAYLOAD...]\<close>; the tokens after the key are rejoined as the
  payload. Tokens are the maximal runs of characters other than blanks and line terminators.
  The dispatcher below takes the parser as a parameter; this one instantiates it on concrete lines.
\<close>

definition blank :: "char \<Rightarrow> bool" where
  "blank c = (c = CHR '' '' \<or> c = NL \<or> c = CHR 0x0D \<or> c = CHR 0x09)"

fun tokens_acc :: "string \<Rightarrow> string \<Rightarrow> string list" where
  "tokens_acc acc [] = (if acc = [] then [] else [rev acc])"
| "tokens_acc acc (c # cs) =
     (if blank c then (if acc = [] then tokens_acc [] cs else rev acc # tokens_acc [] cs)
      else tokens_acc (c # acc) cs)"

fun join :: "string list \<Rightarrow> string" where
  "join [] = []"
| "join [t] = t"
| "join (t # u # ts) = t @ '' '' @ join (u # ts)"

definition ParseCommand :: "string \<Rightarrow> string \<times> string \<times> string" where
  "ParseCommand line =
     (case tokens_acc [] line of
        [] \<Rightarrow> ([], [], [])
      | [verb] \<Rightarrow> (verb, [], [])
      | verb # key # rest \<Rightarrow> (verb, key, join rest))"

subsection \<open>The backend sockets\<close>

text \<open>
  What the backend does to one forwarded command line is an input of the model: the
  connection is refused, sending fails, reading the response line fails, or
  \<open>library.ReadCommand\<close> returns a line. The state \<open>net\<close> records every socket that
  \<open>socket.socket\<close> has created, with what has happened to it, and the data sent to the backend.
\<close>

datatype backend_reply = ConnectFails | SendFails | ReadFails | Replies string

type_synonym server = "string \<times> nat \<Rightarrow> string \<Rightarrow> backend_reply"

datatype sock_state = SockOpen | SockClosed

record net =
  socks :: "sock_state list"
  sent :: "(nat \<times> string) list"

definition net0 :: net where
  "net0 = \<lparr>socks = [], sent = []\<rparr>"

definition sock_close :: "nat \<Rightarrow> net \<Rightarrow> net" where
  "sock_close fd w = w\<lparr>socks := (socks w)[fd := SockClosed]\<rparr>"

definition sock_sendall :: "nat \<Rightarrow> string \<Rightarrow> net \<Rightarrow> net" where
  "sock_sendall fd bytes w = w\<lparr>sent := sent w @ [(fd, bytes)]\<rparr>"

text \<open>
  \<open>ForwardCommandToServer\<close>: the socket is created and connected before the \<open>try\<close>; the
  \<open>finally\<close> closes it on every way out of the \<open>try\<close> block.
\<close>

definition ForwardCommandToServer :: "server \<Rightarrow> string \<times> string \<times> nat \<Rightarrow> net \<Rightarrow> (error + string) \<times> net" where
  "ForwardCommandToServer backend msg_to_server w =
     (case msg_to_server of (command_line, server_addr, server_port) \<Rightarrow>
        let fd = length (socks w);
            w1 = w\<lparr>socks := socks w @ [SockOpen]\<rparr>
        in case backend (server_addr, server_port) command_line of
             ConnectFails \<Rightarrow> (Inl SocketError, w1)
           | SendFails \<Rightarrow> (Inl SocketError, sock_close fd w1)
           | ReadFails \<Rightarrow> (Inl SocketError, sock_close fd (sock_sendall fd command_line w1))
           | Replies line \<Rightarrow>
               (Inr (strip [NL] line), sock_close fd (sock_sendall fd command_line w1)))"

subsection \<open>The command handlers\<close>

definition PutCommand ::
  "server \<Rightarrow> real \<Rightarrow> string \<Rightarrow> string \<Rightarrow> KeyValueStore \<Rightarrow> string \<times> string \<times> nat \<Rightarrow> net
     \<Rightarrow> (error + string) \<times> KeyValueStore \<times> net" where
  "PutCommand backend now name text cache msg_to_server w =
     (let cache' = StoreValue name text now cache
      in case ForwardCommandToServer backend msg_to_server w of
           (r, w') \<Rightarrow> (r, cache', w'))"

text \<open>
  \<open>GetCommand\<close>: \<open>not res\<close> holds for \<open>None\<close> and for the empty string. In the branch that
  updates the cache the argument \<open>text\<close> is evaluated before \<open>StoreValue\<close> is called; the
  name is bound neither in the function nor in the module, so the read raises.
\<close>

definition GetCommand ::
  "server \<Rightarrow> real \<Rightarrow> string \<Rightarrow> KeyValueStore \<Rightarrow> string \<times> string \<times> nat \<Rightarrow> net
     \<Rightarrow> (error + string) \<times> KeyValueStore \<times> net" where
  "GetCommand backend now name cache msg_to_server w =
     (case GetValue name MAX_CACHE_AGE_SEC now cache of
        Some (c # cs) \<Rightarrow> (Inr (c # cs), cache, w)
      | _ \<Rightarrow>
          (case ForwardCommandToServer backend msg_to_server w of
             (Inl e, w') \<Rightarrow> (Inl e, cache, w')
           | (Inr res, w') \<Rightarrow>
               if res \<noteq> ''Key does not exist!''
               then (Inl (NameError ''text''), cache, w')
               else (Inr res, cache, w')))"

subsection \<open>The dispatcher\<close>

text \<open>
  The client socket: the line that \<open>library.ReadCommand\<close> reads from it, what has been
  sent on it, and whether it has been closed. The read of the client's line is taken as
  given; \<open>send\<close> on the client socket delivers the whole text.
\<close>

record client =
  inbound :: string
  outbound :: "string list"
  closed :: bool

definition SendText :: "client \<Rightarrow> string \<Rightarrow> client" where
  "SendText sock text = sock\<lparr>outbound := outbound sock @ [text @ [NL]]\<rparr>"

definition ProxyClientCommand ::
  "(string \<Rightarrow> string \<times> string \<times> string) \<Rightarrow> server \<Rightarrow> real \<Rightarrow> client \<Rightarrow> string \<Rightarrow> nat
     \<Rightarrow> KeyValueStore \<Rightarrow> net \<Rightarrow> (error + unit) \<times> client \<times> KeyValueStore \<times> net" where
  "ProxyClientCommand parse backend now sock server_addr server_port cache w =
     (let command_line = inbound sock
      in case parse command_line of (cmd, name, text) \<Rightarrow>
        let result = [];
            msg_to_server = (command_line, server_addr, server_port)
        in if cmd = ''PUT'' then
             (case PutCommand backend now name text cache msg_to_server w of
                (Inl e, cache', w') \<Rightarrow> (Inl e, sock, cache', w')
              | (Inr result, cache', w') \<Rightarrow> (Inr (), SendText sock result, cache', w'))
           else if cmd = ''GET'' then
             (case GetCommand backend now name cache msg_to_server w of
                (Inl e, cache', w') \<Rightarrow> (Inl e, sock, cache', w')
              | (Inr result, cache', w') \<Rightarrow> (Inr (), SendText sock result, cache', w'))
           else if cmd = ''DUMP'' then
             (case ForwardCommandToServer backend msg_to_server w of
                (Inl e, w') \<Rightarrow> (Inl e, sock, cache, w')
              | (Inr result, w') \<Rightarrow> (Inr (), SendText sock result, cache, w'))
           else
             (Inr (), SendText (SendText sock (''Unknown command '' @ cmd)) result, cache, w))"

subsection \<open>The accept loop\<close>

text \<open>
  \<open>main\<close> serves the connections one after the other. A connection is the line its client
  sends, the behaviour of the backend while it is served, and the clock reading. The
  \<open>finally\<close> closes the client socket; an exception then leaves the \<open>while\<close> loop and ends
  \<open>main\<close>. After the last pending connection the loop waits in accept.
\<close>

datatype status = Listening | Crashed error

fun serve ::
  "(string \<Rightarrow> string \<times> string \<times> string) \<Rightarrow> (string \<times> server \<times> real) list \<Rightarrow> KeyValueStore \<Rightarrow> net
     \<Rightarrow> client list \<Rightarrow> status \<times> KeyValueStore \<times> net \<times> client list" where
  "serve parse [] cache w served = (Listening, cache, w, served)"
| "serve parse ((line, backend, now) # rest) cache w served =
     (let client_sock = \<lparr>inbound = line, outbound = [], closed = False\<rparr>
      in case ProxyClientCommand parse backend now client_sock SERVER_ADDRESS SERVER_PORT cache w of
           (Inl e, sock', cache', w') \<Rightarrow>
             (Crashed e, cache', w', served @ [sock'\<lparr>closed := True\<rparr>])
         | (Inr u, sock', cache', w') \<Rightarrow>
             serve parse rest cache' w' (served @ [sock'\<lparr>closed := True\<rparr>]))"

definition main ::
  "(string \<Rightarrow> string \<times> string \<times> string) \<Rightarrow> (string \<times> server \<times> real) list
     \<Rightarrow> status \<times> KeyValueStore \<times> net \<times> client list" where
  "main parse conns = serve parse conns KeyValueStore net0 []"

subsection \<open>Backends and properties used in the statements\<close>

text \<open>
  A backend that refuses every connection, one that takes the command and never answers, and
  one that answers every command with a fixed line.
\<close>

definition server_down :: server where
  "server_down addr line = ConnectFails"

definition server_silent :: server where
  "server_silent addr line = ReadFails"

definition server_replying :: "string \<Rightarrow> server" where
  "server_replying response addr line = Replies response"

definition no_trailing_newline :: "string \<Rightarrow> bool" where
  "no_trailing_newline s = (s = [] \<or> last s \<noteq> NL)"


definition clean_cache :: "KeyValueStore \<Rightarrow> bool" where
  "clean_cache cache = (\<forall>k e. cache k = Some e \<longrightarrow> no_trailing_newline (entry_value e))"

section \<open>Properties\<close>

lemmas proxy_defs = ProxyClientCommand_def GetCommand_def PutCommand_def
  ForwardCommandToServer_def ParseCommand_def blank_def SendText_def GetValue_def StoreValue_def
  KeyValueStore_def net0_def sock_close_def sock_sendall_def strip_def MAX_CACHE_AGE_SEC_def
  SERVER_ADDRESS_def SERVER_PORT_def main_def server_down_def server_silent_def server_replying_def Let_def

subsection \<open>Stripping and the cache invariant\<close>





lemma clean_cache_empty: "clean_cache KeyValueStore"
  by (simp add: clean_cache_def KeyValueStore_def)

lemma clean_cache_StoreValue:
  "clean_cache cache \<Longrightarrow> no_trailing_newline v \<Longrightarrow> clean_cache (StoreValue k v now cache)"
  by (simp add: clean_cache_def StoreValue_def)




subsection \<open>What strip removes\<close>






subsection \<open>The payload of the parser and the caches that main reaches\<close>

text \<open>
  A token holds no blank and no line terminator, so the payload that \<open>ParseCommand\<close>
  returns does not end in a newline; PUT is the one command that writes the cache, so no value
  of a cache that \<open>main\<close> reaches with this parser ends in a newline.
\<close>

lemma tokens_acc_no_blank:
  "\<forall>c\<in>set acc. \<not> blank c \<Longrightarrow>
   \<forall>t\<in>set (tokens_acc acc s). t \<noteq> [] \<and> (\<forall>c\<in>set t. \<not> blank c)"
proof (induction acc s rule: tokens_acc.induct)
  case (1 acc)
  then show ?case by simp
next
  case (2 acc c cs)
  show ?case
  proof (cases "blank c")
    case True
    have "\<forall>t\<in>set (tokens_acc [] cs). t \<noteq> [] \<and> (\<forall>c\<in>set t. \<not> blank c)"
    proof (cases "acc = []")
      case True
      with \<open>blank c\<close> show ?thesis using "2.IH"(1) by simp
    next
      case False
      with \<open>blank c\<close> show ?thesis using "2.IH"(2) by simp
    qed
    with True "2.prems" show ?thesis by simp
  next
    case False
    with "2.prems" have "\<forall>x\<in>set (c # acc). \<not> blank x" by simp
    with False "2.IH"(3) have "\<forall>t\<in>set (tokens_acc (c # acc) cs). t \<noteq> [] \<and> (\<forall>c\<in>set t. \<not> blank c)"
      by blast
    with False show ?thesis by simp
  qed
qed

lemma join_last:
  "ts \<noteq> [] \<Longrightarrow> \<forall>t\<in>set ts. t \<noteq> [] \<and> (\<forall>c\<in>set t. \<not> blank c) \<Longrightarrow>
     join ts \<noteq> [] \<and> \<not> blank (last (join ts))"
proof (induction ts rule: join.induct)
  case 1
  then show ?case by simp
next
  case (2 t)
  then have "t \<noteq> []" and "\<forall>c\<in>set t. \<not> blank c" by simp_all
  then show ?case using last_in_set [of t] by simp
next
  case (3 t u ts)
  then have "join (u # ts) \<noteq> [] \<and> \<not> blank (last (join (u # ts)))" by simp
  then show ?case by simp
qed

lemma ParseCommand_payload:
  "ParseCommand line = (cmd, name, text) \<Longrightarrow> no_trailing_newline text"
proof -
  assume p: "ParseCommand line = (cmd, name, text)"
  have tok: "\<forall>t\<in>set (tokens_acc [] line). t \<noteq> [] \<and> (\<forall>c\<in>set t. \<not> blank c)"
    by (rule tokens_acc_no_blank) simp
  have "text = [] \<or> \<not> blank (last text)"
  proof (cases "tokens_acc [] line")
    case Nil
    with p show ?thesis by (simp add: ParseCommand_def)
  next
    case (Cons v r1)
    show ?thesis
    proof (cases r1)
      case Nil
      with Cons p show ?thesis by (simp add: ParseCommand_def)
    next
      case (Cons k rest)
      with \<open>tokens_acc [] line = v # r1\<close> p have t: "text = join rest" by (simp add: ParseCommand_def)
      have ok: "\<forall>t\<in>set rest. t \<noteq> [] \<and> (\<forall>c\<in>set t. \<not> blank c)"
        using tok \<open>tokens_acc [] line = v # r1\<close> Cons by simp
      show ?thesis
      proof (cases "rest = []")
        case True
        with t show ?thesis by simp
      next
        case False
        from join_last [OF False ok] t show ?thesis by simp
      qed
    qed
  qed
  then show ?thesis by (auto simp: no_trailing_newline_def blank_def)
qed

lemma ProxyClientCommand_cache:
  assumes "ProxyClientCommand parse backend now sock addr port cache w = (r, sock', cache', w')"
  shows "cache' = cache \<or>
         (\<exists>cmd name text. parse (inbound sock) = (cmd, name, text) \<and>
            cache' = StoreValue name text now cache)"
  using assms
  by (auto simp: ProxyClientCommand_def PutCommand_def GetCommand_def Let_def
      split: prod.splits sum.splits if_splits option.splits list.splits)

lemma serve_cache_clean:
  "clean_cache cache \<Longrightarrow> serve ParseCommand conns cache w served = (st, cache', w', cl) \<Longrightarrow>
     clean_cache cache'"
proof (induction conns arbitrary: cache w served)
  case Nil
  then show ?case by simp
next
  case (Cons conn conns)
  obtain line backend now where conn: "conn = (line, backend, now)" by (cases conn)
  let ?sock = "\<lparr>inbound = line, outbound = [], closed = False\<rparr>"
  obtain r s1 c1 w1 where
    step: "ProxyClientCommand ParseCommand backend now ?sock SERVER_ADDRESS SERVER_PORT cache w =
             (r, s1, c1, w1)"
    by (metis prod_cases4)
  have c1: "clean_cache c1"
    using ProxyClientCommand_cache [OF step] Cons.prems(1)
    by (auto dest: ParseCommand_payload intro: clean_cache_StoreValue)
  show ?case
  proof (cases r)
    case (Inl e)
    with Cons.prems(2) conn step have "cache' = c1" by simp
    with c1 show ?thesis by simp
  next
    case (Inr u)
    with Cons.prems(2) conn step
    have "serve ParseCommand conns c1 w1 (served @ [s1\<lparr>closed := True\<rparr>]) = (st, cache', w', cl)"
      by simp
    from Cons.IH [OF c1 this] show ?thesis .
  qed
qed

lemma main_cache_clean:
  "main ParseCommand conns = (st, cache, w, cl) \<Longrightarrow> clean_cache cache"
  unfolding main_def by (rule serve_cache_clean [OF clean_cache_empty])

subsection \<open>Where the result of a completed command comes from\<close>



subsection \<open>What GET does on a hit and on a miss\<close>

text \<open>A fresh entry with a non-empty value is answered from the cache: no socket is created.\<close>

lemma GetCommand_fresh_nonempty:
  assumes "cache name = Some e" and "now - writtenAt e \<le> MAX_CACHE_AGE_SEC" and "entry_value e \<noteq> []"
  shows "GetCommand backend now name cache msg w = (Inr (entry_value e), cache, w)"
  using assms by (cases "entry_value e") (simp_all add: GetCommand_def GetValue_def)

text \<open>After a PUT of a non-empty value that returned, a GET within the staleness bound reads it back.\<close>

lemma read_your_write_nonempty:
  assumes "PutCommand backend now name text cache msg w = (Inr r, cache', w')"
    and "text \<noteq> []" and "now' - now \<le> MAX_CACHE_AGE_SEC"
  shows "GetCommand backend' now' name cache' msg' w' = (Inr text, cache', w')"
proof -
  have "cache' = StoreValue name text now cache"
    using assms(1) by (auto simp: PutCommand_def Let_def split: prod.splits)
  then have "cache' name = Some \<lparr>entry_value = text, writtenAt = now\<rparr>"
    by (simp add: StoreValue_def)
  then show ?thesis
    using GetCommand_fresh_nonempty
      [of cache' name "\<lparr>entry_value = text, writtenAt = now\<rparr>" now' backend' msg' w'] assms(2,3)
    by simp
qed

text \<open>
  On a miss with a response other than the sentinel, the handler raises before \<open>StoreValue\<close>
  is called; with the sentinel it returns the response and leaves the cache as it was.
\<close>

lemma GetCommand_miss:
  assumes "GetValue name MAX_CACHE_AGE_SEC now cache = None \<or>
           GetValue name MAX_CACHE_AGE_SEC now cache = Some []"
    and "ForwardCommandToServer backend msg w = (Inr res, w')"
  shows "GetCommand backend now name cache msg w =
           (if res \<noteq> ''Key does not exist!'' then (Inl (NameError ''text''), cache, w')
            else (Inr res, cache, w'))"
  using assms by (auto simp: GetCommand_def)

subsection \<open>C1: a GET that misses the cache\<close>

text \<open>
  C1: a GET whose cache lookup misses makes one backend round trip and, when the response is
  not the sentinel, stores the value returned by the backend under the requested key before
  replying. Here the cache is empty, the client sends \<open>GET x\<close> and the backend answers
  \<open>5\<close>: the proxy opens one socket, sends the line, closes the socket, and then raises
  \<open>NameError\<close> on reading \<open>text\<close>. The cache stays empty, nothing is sent to the
  client, and the error ends \<open>main\<close>.
\<close>

theorem C1_get_miss_raises:
  "main ParseCommand [(''GET x'' @ [NL], server_replying (''5'' @ [NL]), 0)] =
     (Crashed (NameError ''text''), KeyValueStore,
      \<lparr>socks = [SockClosed], sent = [(0, ''GET x'' @ [NL])]\<rparr>,
      [\<lparr>inbound = ''GET x'' @ [NL], outbound = [], closed = True\<rparr>])"
  by (simp add: proxy_defs)

subsection \<open>C2: errors while contacting the backend\<close>

text \<open>
  C2: when contacting the backend raises, handling of that connection ends with a failure
  response reported to the client, the process does not crash and the cache is unchanged.
  With an empty cache, \<open>GET z\<close> and a backend that refuses the connection, the error
  leaves \<open>GetCommand\<close> and \<open>ProxyClientCommand\<close>: nothing is sent to the client, the
  client socket is closed, and the error ends \<open>main\<close>. The cache is unchanged.
\<close>

theorem C2_backend_down_crashes:
  "main ParseCommand [(''GET z'' @ [NL], server_down, 0)] =
     (Crashed SocketError, KeyValueStore, \<lparr>socks = [SockOpen], sent = []\<rparr>,
      [\<lparr>inbound = ''GET z'' @ [NL], outbound = [], closed = True\<rparr>])"
  by (simp add: proxy_defs)

text \<open>
  The same happens for every PUT, DUMP and GET that misses the cache, whichever of
  connecting, sending and reading fails, and with connections still pending.
\<close>

lemma backend_error_propagates:
  assumes "parse line = (cmd, name, text)"
    and "cmd = ''PUT'' \<or> cmd = ''DUMP'' \<or>
         (cmd = ''GET'' \<and> (GetValue name MAX_CACHE_AGE_SEC now cache = None \<or>
                          GetValue name MAX_CACHE_AGE_SEC now cache = Some []))"
    and "backend (SERVER_ADDRESS, SERVER_PORT) line \<in> {ConnectFails, SendFails, ReadFails}"
  shows "\<exists>w'. serve parse ((line, backend, now) # rest) cache w served =
           (Crashed SocketError,
            (if cmd = ''PUT'' then StoreValue name text now cache else cache),
            w',
            served @ [\<lparr>inbound = line, outbound = [], closed = True\<rparr>])"
  using assms
  by (auto simp: ProxyClientCommand_def PutCommand_def GetCommand_def
      ForwardCommandToServer_def Let_def)

subsection \<open>C3: unknown verbs\<close>

text \<open>
  C3: for a verb other than PUT, GET and DUMP the dispatcher writes exactly one response
  line, naming the verb, forwards nothing and attempts no second reply. For \<open>FROB z\<close>
  nothing is forwarded and the first line names the verb, but the \<open>SendText\<close> that ends
  \<open>ProxyClientCommand\<close> runs as well and sends a second, empty line.
\<close>

theorem C3_unknown_sends_twice:
  "ProxyClientCommand ParseCommand server_down 0
     \<lparr>inbound = ''FROB z'' @ [NL], outbound = [], closed = False\<rparr>
     SERVER_ADDRESS SERVER_PORT KeyValueStore net0 =
   (Inr (),
    \<lparr>inbound = ''FROB z'' @ [NL], outbound = [''Unknown command FROB'' @ [NL], [NL]], closed = False\<rparr>,
    KeyValueStore, net0)"
  by (simp add: proxy_defs)

subsection \<open>C4: a fresh entry whose value is empty\<close>

text \<open>
  C4: a GET on a key with a fresh cache entry returns the cached value with no backend
  contact, also when the value is the empty string. Here the cache holds \<open>k\<close> with the
  empty value, written 10 seconds before: \<open>not res\<close> holds for the empty string, so the
  command is forwarded and the client receives the backend's answer.
\<close>

theorem C4_empty_value_forwarded:
  "ProxyClientCommand ParseCommand (server_replying (''Key does not exist!'' @ [NL])) 10
     \<lparr>inbound = ''GET k'' @ [NL], outbound = [], closed = False\<rparr>
     SERVER_ADDRESS SERVER_PORT (StoreValue ''k'' [] 0 KeyValueStore) net0 =
   (Inr (),
    \<lparr>inbound = ''GET k'' @ [NL], outbound = [''Key does not exist!'' @ [NL]], closed = False\<rparr>,
    StoreValue ''k'' [] 0 KeyValueStore,
    \<lparr>socks = [SockClosed], sent = [(0, ''GET k'' @ [NL])]\<rparr>)"
  by (simp add: proxy_defs)

subsection \<open>C5: read your write\<close>

text \<open>
  C5: after PUT(k, v) has returned, an immediately following GET(k) returns v without
  contacting the backend. For the empty payload (\<open>PUT k\<close>) the GET one second later finds
  the entry, takes the empty value for a miss and forwards the command: a second socket is
  opened and \<open>GET k\<close> is sent on it. The backend's answer, the empty value, is not the
  sentinel, and the handler raises as in C1.
\<close>

theorem C5_empty_payload_forwarded:
  "main ParseCommand
     [(''PUT k'' @ [NL], server_replying (''OK'' @ [NL]), 0),
      (''GET k'' @ [NL], server_replying [NL], 1)] =
   (Crashed (NameError ''text''), StoreValue ''k'' [] 0 KeyValueStore,
    \<lparr>socks = [SockClosed, SockClosed], sent = [(0, ''PUT k'' @ [NL]), (1, ''GET k'' @ [NL])]\<rparr>,
    [\<lparr>inbound = ''PUT k'' @ [NL], outbound = [''OK'' @ [NL]], closed = True\<rparr>,
     \<lparr>inbound = ''GET k'' @ [NL], outbound = [], closed = True\<rparr>])"
  by (simp add: proxy_defs)

subsection \<open>C6: PUT\<close>

text \<open>
  C6: for every PUT the dispatcher writes the payload into the cache under the key, then
  makes exactly one forward of the original command line, whatever the cache held, and
  returns the backend's response to the client. The cache holds the payload whatever the
  backend does afterwards; exactly one socket is created; when the backend answers, the
  command line is the one thing sent to it and the client receives the response, stripped
  of newlines, followed by one newline.
\<close>

theorem C6_put:
  assumes "parse (inbound sock) = (''PUT'', name, text)"
    and "ProxyClientCommand parse backend now sock server_addr server_port cache w =
           (r, sock', cache', w')"
  shows "cache' = StoreValue name text now cache \<and>
         length (socks w') = Suc (length (socks w)) \<and>
         (\<forall>line. backend (server_addr, server_port) (inbound sock) = Replies line \<longrightarrow>
            r = Inr () \<and>
            sent w' = sent w @ [(length (socks w), inbound sock)] \<and>
            outbound sock' = outbound sock @ [strip [NL] line @ [NL]])"
  using assms
  by (auto simp: ProxyClientCommand_def PutCommand_def ForwardCommandToServer_def Let_def
      sock_close_def sock_sendall_def SendText_def split: backend_reply.splits)

theorem C6_put_witness:
  "ParseCommand (''PUT y hello world'' @ [NL]) = (''PUT'', ''y'', ''hello world'') \<and>
   server_replying (''OK'' @ [NL]) (SERVER_ADDRESS, SERVER_PORT) (''PUT y hello world'' @ [NL]) =
     Replies (''OK'' @ [NL]) \<and>
   ProxyClientCommand ParseCommand (server_replying (''OK'' @ [NL])) 5
     \<lparr>inbound = ''PUT y hello world'' @ [NL], outbound = [], closed = False\<rparr>
     SERVER_ADDRESS SERVER_PORT (StoreValue ''y'' ''old'' 0 KeyValueStore) net0 =
   (Inr (),
    \<lparr>inbound = ''PUT y hello world'' @ [NL], outbound = [''OK'' @ [NL]], closed = False\<rparr>,
    StoreValue ''y'' ''hello world'' 5 (StoreValue ''y'' ''old'' 0 KeyValueStore),
    \<lparr>socks = [SockClosed], sent = [(0, ''PUT y hello world'' @ [NL])]\<rparr>)"
proof -
  let ?sock = "\<lparr>inbound = ''PUT y hello world'' @ [NL], outbound = [], closed = False\<rparr>"
  have h1: "ParseCommand (inbound ?sock) = (''PUT'', ''y'', ''hello world'')"
    by (simp add: ParseCommand_def blank_def)
  have h2: "ProxyClientCommand ParseCommand (server_replying (''OK'' @ [NL])) 5 ?sock
              SERVER_ADDRESS SERVER_PORT (StoreValue ''y'' ''old'' 0 KeyValueStore) net0 =
            (Inr (), ?sock\<lparr>outbound := [''OK'' @ [NL]]\<rparr>,
             StoreValue ''y'' ''hello world'' 5 (StoreValue ''y'' ''old'' 0 KeyValueStore),
             \<lparr>socks = [SockClosed], sent = [(0, ''PUT y hello world'' @ [NL])]\<rparr>)"
    by (simp add: proxy_defs)
  have h3: "server_replying (''OK'' @ [NL]) (SERVER_ADDRESS, SERVER_PORT) (inbound ?sock) =
              Replies (''OK'' @ [NL])"
    by (simp add: server_replying_def)
  show ?thesis using h1 h2 h3 C6_put [OF h1 h2] by (simp add: strip_def)
qed

subsection \<open>C7: the backend socket\<close>

text \<open>
  C7: every call of the forwarding client opens a fresh connection and releases it on every
  exit path, the failure of connection establishment included, before it returns or raises.
  When the backend refuses the connection, \<open>connect\<close> raises outside the \<open>try\<close>, and the
  call ends with the socket it created still open.
\<close>

theorem C7_refused_connection_not_closed:
  "ForwardCommandToServer server_down (''GET k'' @ [NL], SERVER_ADDRESS, SERVER_PORT) net0 =
     (Inl SocketError, \<lparr>socks = [SockOpen], sent = []\<rparr>)"
  by (simp add: proxy_defs)

text \<open>
  Every call creates one new socket and leaves the earlier ones as they were. The new socket
  is closed when the call ends on every path but the refused connection, where it stays open.
\<close>

lemma Forward_socket:
  assumes "ForwardCommandToServer backend (command_line, server_addr, server_port) w = (r, w')"
  shows "length (socks w') = Suc (length (socks w)) \<and>
         take (length (socks w)) (socks w') = socks w \<and>
         socks w' ! length (socks w) =
           (if backend (server_addr, server_port) command_line = ConnectFails
            then SockOpen else SockClosed)"
  using assms
  by (auto simp: ForwardCommandToServer_def Let_def sock_close_def sock_sendall_def
      split: backend_reply.splits)

subsection \<open>C8: DUMP\<close>

text \<open>
  C8: for every DUMP the dispatcher forwards the command and returns the backend's response,
  and the cache is neither read nor changed. The cache after the command is the cache
  before it, and with any other cache in its place the outcome, the client socket and the
  backend sockets come out the same.
\<close>

theorem C8_dump:
  assumes "parse (inbound sock) = (''DUMP'', name, text)"
    and "ProxyClientCommand parse backend now sock server_addr server_port cache w =
           (r, sock', cache', w')"
  shows "cache' = cache \<and>
         (\<forall>other. ProxyClientCommand parse backend now sock server_addr server_port other w =
            (r, sock', other, w')) \<and>
         length (socks w') = Suc (length (socks w)) \<and>
         (\<forall>line. backend (server_addr, server_port) (inbound sock) = Replies line \<longrightarrow>
            r = Inr () \<and>
            sent w' = sent w @ [(length (socks w), inbound sock)] \<and>
            outbound sock' = outbound sock @ [strip [NL] line @ [NL]])"
  using assms
  by (auto simp: ProxyClientCommand_def ForwardCommandToServer_def Let_def
      sock_close_def sock_sendall_def SendText_def split: backend_reply.splits)

theorem C8_dump_witness:
  "ParseCommand (''DUMP'' @ [NL]) = (''DUMP'', [], []) \<and>
   ProxyClientCommand ParseCommand (server_replying (''x, y'' @ [NL])) 7
     \<lparr>inbound = ''DUMP'' @ [NL], outbound = [], closed = False\<rparr>
     SERVER_ADDRESS SERVER_PORT (StoreValue ''x'' ''5'' 0 KeyValueStore) net0 =
   (Inr (), \<lparr>inbound = ''DUMP'' @ [NL], outbound = [''x, y'' @ [NL]], closed = False\<rparr>,
    StoreValue ''x'' ''5'' 0 KeyValueStore,
    \<lparr>socks = [SockClosed], sent = [(0, ''DUMP'' @ [NL])]\<rparr>) \<and>
   ProxyClientCommand ParseCommand (server_replying (''x, y'' @ [NL])) 7
     \<lparr>inbound = ''DUMP'' @ [NL], outbound = [], closed = False\<rparr>
     SERVER_ADDRESS SERVER_PORT KeyValueStore net0 =
   (Inr (), \<lparr>inbound = ''DUMP'' @ [NL], outbound = [''x, y'' @ [NL]], closed = False\<rparr>,
    KeyValueStore,
    \<lparr>socks = [SockClosed], sent = [(0, ''DUMP'' @ [NL])]\<rparr>)"
proof -
  let ?sock = "\<lparr>inbound = ''DUMP'' @ [NL], outbound = [], closed = False\<rparr>"
  have h1: "ParseCommand (inbound ?sock) = (''DUMP'', [], [])"
    by (simp add: ParseCommand_def blank_def)
  have h2: "ProxyClientCommand ParseCommand (server_replying (''x, y'' @ [NL])) 7 ?sock
              SERVER_ADDRESS SERVER_PORT (StoreValue ''x'' ''5'' 0 KeyValueStore) net0 =
            (Inr (), ?sock\<lparr>outbound := [''x, y'' @ [NL]]\<rparr>, StoreValue ''x'' ''5'' 0 KeyValueStore,
             \<lparr>socks = [SockClosed], sent = [(0, ''DUMP'' @ [NL])]\<rparr>)"
    by (simp add: proxy_defs)
  show ?thesis using h1 h2 C8_dump [OF h1 h2] by simp
qed

subsection \<open>C10: the reply ends in one newline\<close>




end
